theory Spec2Isabelle
  imports Complex_Main "HOL-Library.AList"
begin

section \<open>Exceptions\<close>

text \<open>
  The Python exceptions the scraper distinguishes. \<open>CancelledError\<close> derives from
  \<open>BaseException\<close> (Python 3.8 and later), so an \<open>except Exception\<close> clause does not
  catch it; the Playwright timeout, \<open>ZeroDivisionError\<close> and every other error
  (\<open>ValueError\<close>, Playwright's \<open>Error\<close>, \<open>TargetClosedError\<close>, ...) derive from
  \<open>Exception\<close>.
\<close>

datatype exn =
    CancelledError
  | PlaywrightTimeoutError string
  | ZeroDivisionError
  | Exception string

fun is_Exception :: "exn \<Rightarrow> bool" where
  "is_Exception CancelledError = False"
| "is_Exception _ = True"

fun is_PlaywrightTimeoutError :: "exn \<Rightarrow> bool" where
  "is_PlaywrightTimeoutError (PlaywrightTimeoutError _) = True"
| "is_PlaywrightTimeoutError _ = False"

fun str_exn :: "exn \<Rightarrow> string" where
  "str_exn CancelledError = ''''"
| "str_exn (PlaywrightTimeoutError m) = m"
| "str_exn ZeroDivisionError = ''division by zero''"
| "str_exn (Exception m) = m"

section \<open>Strings\<close>

text \<open>\<open>s.startswith(p)\<close> and \<open>p in s\<close> of Python's \<open>str\<close>.\<close>

definition startswith :: "string \<Rightarrow> string \<Rightarrow> bool" where
  "startswith s p = (take (length p) s = p)"

fun contains :: "string \<Rightarrow> string \<Rightarrow> bool" where
  "contains [] p = (p = [])"
| "contains (c # cs) p = (startswith (c # cs) p \<or> contains cs p)"

text \<open>Slices \<open>xs[:k]\<close> and \<open>xs[k:]\<close>; a negative bound counts from the end.\<close>

definition slice_to :: "'a list \<Rightarrow> int \<Rightarrow> 'a list" where
  "slice_to xs k = (if 0 \<le> k then take (nat k) xs else take (length xs - nat (- k)) xs)"

definition slice_from :: "'a list \<Rightarrow> int \<Rightarrow> 'a list" where
  "slice_from xs k = (if 0 \<le> k then drop (nat k) xs else drop (length xs - nat (- k)) xs)"

section \<open>The obfuscation heuristic\<close>

text \<open>
  \<open>re.compile(r'0x[0-9a-fA-F]+').finditer(s)\<close>: the non-overlapping matches, leftmost
  first, each one greedy: a match takes \<open>0x\<close>, one hexadecimal digit and every
  hexadecimal digit that follows; the search resumes after the match, or one
  character further when there is no match at the current position.
\<close>

definition is_hex :: "char \<Rightarrow> bool" where
  "is_hex c = (c \<in> set ''0123456789abcdefABCDEF'')"

function finditer_hex :: "string \<Rightarrow> string list" where
  "finditer_hex (a # b # c # rest) =
     (if a = CHR ''0'' \<and> b = CHR ''x'' \<and> is_hex c
      then (a # b # c # takeWhile is_hex rest) # finditer_hex (dropWhile is_hex rest)
      else finditer_hex (b # c # rest))"
| "finditer_hex [a, b] = []"
| "finditer_hex [a] = []"
| "finditer_hex [] = []"
  by pat_completeness auto
termination
  by (relation "measure length") (auto simp: length_dropWhile_le le_imp_less_Suc less_SucI)

text \<open>
  The loop \<open>for match in ...: hex_count += 1; if hex_count > threshold: return ...\<close>.
  The result is the counter when the loop stops and whether it stopped at the
  \<open>return\<close>.
\<close>

fun for_matches :: "string list \<Rightarrow> int \<Rightarrow> int \<Rightarrow> int \<times> bool" where
  "for_matches [] hex_count threshold = (hex_count, False)"
| "for_matches (m # ms) hex_count threshold =
     (if hex_count + 1 > threshold then (hex_count + 1, True)
      else for_matches ms (hex_count + 1) threshold)"

text \<open>\<open>int(x)\<close> of a float truncates towards zero; \<open>a / b\<close> raises on a zero divisor.\<close>

definition py_int :: "real \<Rightarrow> int" where
  "py_int x = (if 0 \<le> x then \<lfloor>x\<rfloor> else \<lceil>x\<rceil>)"

definition py_div :: "int \<Rightarrow> int \<Rightarrow> exn + real" where
  "py_div a b = (if b = 0 then Inl ZeroDivisionError else Inr (real_of_int a / real_of_int b))"

text \<open>
  \<open>detect_obfuscation(js_code, threshold, density_threshold, sample_ratio)\<close>. Floats
  are modelled by reals: with the default \<open>sample_ratio = 0.25\<close> the product
  \<open>code_length * 0.25\<close> is exact in binary floating point, and a quotient of two
  counts below \<open>2^53\<close> compares with \<open>0.05\<close> as the exact quotient compares with
  \<open>1/20\<close> for every script shorter than \<open>10^15\<close> characters.
\<close>

definition detect_obfuscation_with :: "string \<Rightarrow> int \<Rightarrow> real \<Rightarrow> real \<Rightarrow> exn + bool" where
  "detect_obfuscation_with js_code threshold density_threshold sample_ratio =
     (let code_length = int (length js_code) in
      if code_length = 0 then Inr False
      else
        let sample_length = py_int (real_of_int code_length * sample_ratio);
            sample_code = slice_to js_code sample_length
        in case for_matches (finditer_hex sample_code) 0 threshold of
             (hex_count, True) \<Rightarrow>
               (case py_div hex_count sample_length of
                  Inl e \<Rightarrow> Inl e
                | Inr density \<Rightarrow> Inr (density > density_threshold))
           | (hex_count, False) \<Rightarrow>
               (case py_div hex_count sample_length of
                  Inl e \<Rightarrow> Inl e
                | Inr density \<Rightarrow>
                    if density \<le> density_threshold then Inr False
                    else
                      (case for_matches (finditer_hex (slice_from js_code sample_length))
                              hex_count threshold of
                         (hex_count', True) \<Rightarrow>
                           (case py_div hex_count' code_length of
                              Inl e \<Rightarrow> Inl e
                            | Inr density' \<Rightarrow> Inr (density' > density_threshold))
                       | (hex_count', False) \<Rightarrow>
                           (case py_div hex_count' code_length of
                              Inl e \<Rightarrow> Inl e
                            | Inr density' \<Rightarrow> Inr (density' > density_threshold)))))"

definition detect_obfuscation :: "string \<Rightarrow> exn + bool" where
  "detect_obfuscation js_code = detect_obfuscation_with js_code 5 0.05 0.25"

section \<open>The request filter\<close>

text \<open>
  \<open>handle_request(route, request, loaded_resources)\<close>. The result is the call made
  on the route and the set of already requested URLs afterwards. Whatever
  \<open>route.abort()\<close> or \<open>route.continue_()\<close> raises is caught by one of the three
  handlers and only logged; the set is updated before \<open>continue_\<close> is awaited.
\<close>

record request =
  req_url :: string
  req_resource_type :: string

datatype route_action = Abort | Continue

definition blocked_resource_types :: "string list" where
  "blocked_resource_types = [''image'', ''stylesheet'', ''font'', ''media'', ''document'']"

definition blocked_hosts :: "string list" where
  "blocked_hosts = [''ads'', ''analytics'', ''doubleclick'', ''googletagmanager'', ''adservice'']"

definition handle_request :: "request \<Rightarrow> string set \<Rightarrow> route_action \<times> string set" where
  "handle_request request loaded_resources =
     (if req_resource_type request \<in> set blocked_resource_types
        then (Abort, loaded_resources)
      else if list_ex (\<lambda>d. contains (req_url request) d) blocked_hosts
        then (Abort, loaded_resources)
      else if req_url request \<in> loaded_resources
        then (Abort, loaded_resources)
      else (Continue, insert (req_url request) loaded_resources))"

text \<open>
  The requests of one session, in the order in which the handler tasks start. A handler
  reaches its first suspension point only after the test and the update of the set, so
  the handlers of one event loop act on the set one after the other.
\<close>

fun handle_requests :: "request list \<Rightarrow> string set \<Rightarrow> route_action list \<times> string set" where
  "handle_requests [] loaded_resources = ([], loaded_resources)"
| "handle_requests (r # rs) loaded_resources =
     (case handle_request r loaded_resources of
        (a, loaded') \<Rightarrow>
          (case handle_requests rs loaded' of
             (as, loaded'') \<Rightarrow> (a # as, loaded'')))"

section \<open>Response capture\<close>

record response =
  resp_url :: string
  resp_content_type :: "string option"
  resp_status :: int
  resp_text :: "exn + string"

text \<open>
  \<open>capture_scripts_async(response, script_urls, script_contents)\<close>: the two lists
  afterwards, and the exception that ends the task, if any. Both \<open>except Exception\<close>
  clauses let a \<open>CancelledError\<close> through.
\<close>

definition capture_scripts_async ::
  "response \<Rightarrow> string list \<times> string list \<Rightarrow> exn option \<times> string list \<times> string list" where
  "capture_scripts_async resp acc =
     (case acc of (script_urls, script_contents) \<Rightarrow>
        if contains (case resp_content_type resp of None \<Rightarrow> [] | Some ct \<Rightarrow> ct) ''javascript''
           \<and> resp_status resp = 200
        then (case resp_text resp of
                Inr js_code \<Rightarrow> (None, script_urls @ [resp_url resp], script_contents @ [js_code])
              | Inl e \<Rightarrow> (if is_Exception e then None else Some e, script_urls, script_contents))
        else (None, script_urls, script_contents))"

fun capture_all ::
  "response list \<Rightarrow> string list \<times> string list \<Rightarrow> exn option \<times> string list \<times> string list" where
  "capture_all [] acc = (None, acc)"
| "capture_all (r # rs) acc =
     (case capture_scripts_async r acc of
        (e, acc') \<Rightarrow>
          (case capture_all rs acc' of
             (e', acc'') \<Rightarrow> (case e of None \<Rightarrow> e' | Some x \<Rightarrow> Some x, acc'')))"

section \<open>DNS pre-check and redirect test\<close>

text \<open>
  What \<open>resolver.resolve(domain, 'A')\<close> does: it answers with addresses or raises.
  \<open>dns_resolve\<close> catches three of the resolver's exceptions; any other one leaves it.
\<close>

datatype dns_reply =
    Answer "string list"
  | NXDOMAIN
  | NoAnswer
  | DnsTimeout
  | DnsRaises exn

definition dns_resolve :: "(string \<Rightarrow> dns_reply) \<Rightarrow> string \<Rightarrow> exn + string list option" where
  "dns_resolve resolver name =
     (case resolver name of
        Answer ips \<Rightarrow> Inr (Some ips)
      | NXDOMAIN \<Rightarrow> Inr None
      | NoAnswer \<Rightarrow> Inr None
      | DnsTimeout \<Rightarrow> Inr None
      | DnsRaises e \<Rightarrow> Inl e)"

text \<open>
  \<open>urllib.parse.urlparse\<close> is a library function: the model takes it as a parameter
  that gives the two components the scraper reads, or raises (\<open>ValueError\<close>).
\<close>

record parsed_url =
  netloc :: string
  path :: string

text \<open>The result is a host or Python's \<open>False\<close>, here \<open>None\<close>.\<close>

definition is_redirected_to_different_domain ::
  "(string \<Rightarrow> exn + parsed_url) \<Rightarrow> string \<Rightarrow> string \<Rightarrow> exn + string option" where
  "is_redirected_to_different_domain parse initial_url final_url =
     (case parse initial_url of
        Inl e \<Rightarrow> Inl e
      | Inr i \<Rightarrow>
          (case parse final_url of
             Inl e \<Rightarrow> Inl e
           | Inr f \<Rightarrow> Inr (if netloc i \<noteq> netloc f then Some (netloc f) else None)))"

section \<open>The scrape session\<close>

text \<open>
  What the world outside the session answers during one run of
  \<open>scrape_website_async\<close>: one outcome for every call that leaves the process. An
  awaited call that has \<open>Some e\<close> (or \<open>Inl e\<close>) raises \<open>e\<close> there; a cancellation of the
  task is \<open>CancelledError\<close> at the call where it strikes. \<open>content w k\<close> is the answer
  of the \<open>k\<close>-th call of \<open>page.content()\<close>, the first snapshot being number \<open>0\<close>;
  \<open>responses w\<close> are the responses observed, in the order in which their capture
  tasks finish. The parsing of the scraped record (\<open>from_scraper_to_parsed_data\<close>,
  module \<open>app.processing.data_builder\<close>) is a parameter as well: it gives a record as
  a list of fields, Python's \<open>None\<close>, or raises.
\<close>

datatype script_paths_value =
    Str_of_list "string list"
  | List "string list"

record scrape_result =
  domain :: string
  status_code :: string
  ip :: "string list option"
  obfuscation :: bool
  script_paths :: script_paths_value
  redirect_domain :: "string option"
  html_content :: string
  error :: "string option"

record world =
  urlparse :: "string \<Rightarrow> exn + parsed_url"
  resolve :: "string \<Rightarrow> dns_reply"
  playwright_start :: "exn option"
  launch :: "exn option"
  new_context :: "exn option"
  new_page :: "exn option"
  goto :: "exn option"
  content :: "nat \<Rightarrow> exn + string"
  wait_for_selector :: "exn option"
  page_url :: string
  sleep :: "nat \<Rightarrow> exn option"
  responses :: "response list"
  gather :: "exn option"
  playwright_stop :: "exn option"
  context_close :: "exn option"
  page_close :: "exn option"
  browser_close :: "exn option"
  from_scraper_to_parsed_data :: "scrape_result \<Rightarrow> exn + (string \<times> string) list option"

text \<open>
  The calls on the proxy manager and on the lifecycle of browser, context and page, in
  the order in which the session makes them. \<open>UpdateLoadTime b\<close> is
  \<open>proxy_manager.update_load_time(proxy, load_time, b)\<close>; the elapsed time is not
  modelled.
\<close>

datatype event =
    GetProxy
  | LaunchBrowser
  | NewContext
  | NewPage
  | UpdateLoadTime bool
  | CloseContext
  | ClosePage
  | CloseBrowser

text \<open>
  The local variables of \<open>scrape_website_async\<close> that outlive a statement, and the calls
  made so far. \<open>v_browser\<close>, \<open>v_context\<close> and \<open>v_page\<close> say whether the variable holds
  an object (\<open>True\<close>) or \<open>None\<close>.
\<close>

record locals =
  v_browser :: bool
  v_context :: bool
  v_page :: bool
  v_html_content :: string
  v_status_code :: string
  v_redirect_domain :: "string option"
  v_has_obfuscation :: bool
  v_js_filepaths :: "string list"
  v_script_urls :: "string list"
  v_script_contents :: "string list"
  v_trace :: "event list"

type_synonym step = "locals \<Rightarrow> exn option \<times> locals"

text \<open>An awaited call: it raises and leaves the variables alone, or returns.\<close>

definition await :: "exn option \<Rightarrow> (locals \<Rightarrow> locals) \<Rightarrow> step" where
  "await r upd s = (case r of Some e \<Rightarrow> (Some e, s) | None \<Rightarrow> (None, upd s))"

text \<open>Statements in sequence: the first exception ends the block.\<close>

fun run_steps :: "step list \<Rightarrow> step" where
  "run_steps [] s = (None, s)"
| "run_steps (f # fs) s =
     (case f s of
        (None, s') \<Rightarrow> run_steps fs s'
      | (Some e, s') \<Rightarrow> (Some e, s'))"

text \<open>
  The convergence loop, lines 196 to 211, on the tuple \<open>(unchanged_iterations,
  changed_iterations, total_iterations, previous_content, current_content,
  status_code)\<close>. \<open>previous_content\<close> starts as Python's \<open>None\<close>, which differs from
  every string.
\<close>

type_synonym poll_state = "nat \<times> nat \<times> nat \<times> string option \<times> string \<times> string"

function poll_loop :: "world \<Rightarrow> int \<Rightarrow> int \<Rightarrow> poll_state \<Rightarrow> exn option \<times> poll_state" where
  "poll_loop w no_change_limit change_limit (u, c, t, prev, cur, st) =
     (if t < u + c then
        (case content w (t + 1) of
           Inl e \<Rightarrow> (Some e, (u, c, t + 1, prev, cur, ''loading''))
         | Inr cc \<Rightarrow>
             if Some cc \<noteq> prev then
               (if int (c + 1) \<ge> change_limit
                  then (None, (0, c + 1, t + 1, Some cc, cc, ''loading''))
                else if int 0 \<ge> no_change_limit
                  then (None, (0, c + 1, t + 1, Some cc, cc, ''loading''))
                else (case sleep w (t + 1) of
                        Some e \<Rightarrow> (Some e, (0, c + 1, t + 1, Some cc, cc, ''loading''))
                      | None \<Rightarrow>
                          poll_loop w no_change_limit change_limit
                            (0, c + 1, t + 1, Some cc, cc, ''loading'')))
             else
               (if int (u + 1) \<ge> no_change_limit
                  then (None, (u + 1, 0, t + 1, prev, cc, ''loading''))
                else (case sleep w (t + 1) of
                        Some e \<Rightarrow> (Some e, (u + 1, 0, t + 1, prev, cc, ''loading''))
                      | None \<Rightarrow>
                          poll_loop w no_change_limit change_limit
                            (u + 1, 0, t + 1, prev, cc, ''loading''))))
      else (None, (u, c, t, prev, cur, st)))"
  by pat_completeness auto
termination
  by (relation "measure (\<lambda>(w, ncl, cl, (u, c, t, rest)).
                  max (u + c) (max (nat cl) (nat ncl)) - t)") auto

text \<open>
  Lines 192 to 214: the three counters start at zero, \<open>current_content\<close> starts as the
  first snapshot; after the loop the status is set to \<open>complete\<close> and
  \<open>html_content\<close> to \<open>current_content\<close>. An exception inside the loop leaves
  \<open>html_content\<close> as it was.
\<close>

definition poll_step :: "world \<Rightarrow> int \<Rightarrow> int \<Rightarrow> step" where
  "poll_step w no_change_limit change_limit s =
     (case poll_loop w no_change_limit change_limit
             (0, 0, 0, None, v_html_content s, v_status_code s) of
        (Some e, (u, c, t, prev, cur, st)) \<Rightarrow> (Some e, s\<lparr>v_status_code := st\<rparr>)
      | (None, (u, c, t, prev, cur, st)) \<Rightarrow>
          (None, s\<lparr>v_status_code := ''complete'', v_html_content := cur\<rparr>))"

text \<open>Line 181: the first snapshot.\<close>

definition first_content_step :: "world \<Rightarrow> step" where
  "first_content_step w s =
     (case content w 0 of
        Inl e \<Rightarrow> (Some e, s)
      | Inr h \<Rightarrow> (None, s\<lparr>v_html_content := h\<rparr>))"

text \<open>Lines 190 and 191.\<close>

definition redirect_step :: "world \<Rightarrow> string \<Rightarrow> step" where
  "redirect_step w url' s =
     (case is_redirected_to_different_domain (urlparse w) url' (page_url w) of
        Inl e \<Rightarrow> (Some e, s)
      | Inr r \<Rightarrow> (None, s\<lparr>v_redirect_domain := r\<rparr>))"

text \<open>
  Line 216: every capture task has run when \<open>gather\<close> returns; \<open>gather\<close> raises what
  a task raised, or the cancellation of the session.
\<close>

definition gather_step :: "world \<Rightarrow> step" where
  "gather_step w s =
     (case capture_all (responses w) (v_script_urls s, v_script_contents s) of
        (e, urls, contents) \<Rightarrow>
          (let s' = s\<lparr>v_script_urls := urls, v_script_contents := contents\<rparr>
           in case e of
                Some x \<Rightarrow> (Some x, s')
              | None \<Rightarrow> (gather w, s')))"

text \<open>Line 217: \<open>[urlparse(url).path for url in script_urls]\<close>.\<close>

fun paths_of :: "(string \<Rightarrow> exn + parsed_url) \<Rightarrow> string list \<Rightarrow> exn + string list" where
  "paths_of parse [] = Inr []"
| "paths_of parse (u # us) =
     (case parse u of
        Inl e \<Rightarrow> Inl e
      | Inr p \<Rightarrow>
          (case paths_of parse us of
             Inl e \<Rightarrow> Inl e
           | Inr ps \<Rightarrow> Inr (path p # ps)))"

definition js_filepaths_step :: "world \<Rightarrow> step" where
  "js_filepaths_step w s =
     (case paths_of (urlparse w) (v_script_urls s) of
        Inl e \<Rightarrow> (Some e, s)
      | Inr ps \<Rightarrow> (None, s\<lparr>v_js_filepaths := ps\<rparr>))"

text \<open>Lines 218 to 221: the first positive script ends the loop.\<close>

fun any_obfuscated :: "string list \<Rightarrow> exn + bool" where
  "any_obfuscated [] = Inr False"
| "any_obfuscated (script # scripts) =
     (case detect_obfuscation script of
        Inl e \<Rightarrow> Inl e
      | Inr True \<Rightarrow> Inr True
      | Inr False \<Rightarrow> any_obfuscated scripts)"

definition obfuscation_step :: step where
  "obfuscation_step s =
     (case any_obfuscated (v_script_contents s) of
        Inl e \<Rightarrow> (Some e, s)
      | Inr True \<Rightarrow> (None, s\<lparr>v_has_obfuscation := True\<rparr>)
      | Inr False \<Rightarrow> (None, s))"

text \<open>
  The body of the \<open>try\<close>, lines 146 to 221. \<open>page.route\<close> and \<open>page.on\<close> register the
  filter and the observer and touch no variable. Leaving the \<open>async with\<close> block stops
  Playwright, also when the block raised; what the stop raises replaces what the block
  raised.
\<close>

definition try_body :: "world \<Rightarrow> string \<Rightarrow> int \<Rightarrow> int \<Rightarrow> step" where
  "try_body w url' no_change_limit change_limit s =
     (case playwright_start w of
        Some e \<Rightarrow> (Some e, s)
      | None \<Rightarrow>
          (case run_steps
                  [await (launch w) (\<lambda>s. s\<lparr>v_browser := True, v_trace := v_trace s @ [LaunchBrowser]\<rparr>),
                   await (new_context w) (\<lambda>s. s\<lparr>v_context := True, v_trace := v_trace s @ [NewContext]\<rparr>),
                   await (new_page w) (\<lambda>s. s\<lparr>v_page := True, v_trace := v_trace s @ [NewPage]\<rparr>),
                   await (goto w) (\<lambda>s. s),
                   first_content_step w,
                   await (wait_for_selector w) (\<lambda>s. s),
                   redirect_step w url',
                   poll_step w no_change_limit change_limit,
                   gather_step w,
                   js_filepaths_step w,
                   obfuscation_step] s of
             (r, s') \<Rightarrow>
               (case playwright_stop w of
                  Some e \<Rightarrow> (Some e, s')
                | None \<Rightarrow> (r, s'))))"

text \<open>
  The \<open>finally\<close> block, lines 264 to 276: the proxy feedback, then the three closes.
  Only the close of the context is guarded, and by \<open>except Exception\<close>. The result is
  the exception that leaves the block, if any, and the calls made.
\<close>

definition teardown :: "world \<Rightarrow> bool \<Rightarrow> locals \<Rightarrow> exn option \<times> event list" where
  "teardown w proxy_success s =
     (let tr1 = v_trace s @ [UpdateLoadTime proxy_success];
          closed_context =
            (if v_context s
             then (case context_close w of
                     None \<Rightarrow> (None, tr1 @ [CloseContext])
                   | Some e \<Rightarrow> (if is_Exception e then None else Some e, tr1 @ [CloseContext]))
             else (None, tr1))
      in case closed_context of
           (Some e, tr2) \<Rightarrow> (Some e, tr2)
         | (None, tr2) \<Rightarrow>
             (case (if v_page s then (page_close w, tr2 @ [ClosePage]) else (None, tr2)) of
                (Some e, tr3) \<Rightarrow> (Some e, tr3)
              | (None, tr3) \<Rightarrow>
                  (if v_browser s then (browser_close w, tr3 @ [CloseBrowser]) else (None, tr3))))"

definition init_locals :: "event list \<Rightarrow> locals" where
  "init_locals tr =
     \<lparr>v_browser = False, v_context = False, v_page = False,
      v_html_content = [], v_status_code = ''Failed'', v_redirect_domain = None,
      v_has_obfuscation = False, v_js_filepaths = [], v_script_urls = [],
      v_script_contents = [], v_trace = tr\<rparr>"

text \<open>Lines 104 and 105.\<close>

definition add_scheme :: "string \<Rightarrow> string" where
  "add_scheme url = (if \<not> startswith url ''http'' then ''https://'' @ url else url)"

text \<open>
  The dictionary a handler or the last line returns, and the value of \<open>proxy_success\<close>
  when the \<open>finally\<close> block runs. \<open>r\<close> is the exception that left the \<open>try\<close> body, if
  any; the \<open>except\<close> clauses are tried in the order of the source.
\<close>

definition handlers ::
  "string \<Rightarrow> string \<Rightarrow> string list option \<Rightarrow> exn option \<Rightarrow> locals \<Rightarrow> scrape_result \<times> bool" where
  "handlers url' host resolved_ip r s =
     (case r of
        None \<Rightarrow>
          (\<lparr>domain = url', status_code = v_status_code s, ip = resolved_ip,
            obfuscation = v_has_obfuscation s, script_paths = Str_of_list (v_js_filepaths s),
            redirect_domain = v_redirect_domain s, html_content = v_html_content s,
            error = None\<rparr>, True)
      | Some e \<Rightarrow>
          if e = CancelledError then
            (\<lparr>domain = url', status_code = ''Cancelled'', ip = None,
              obfuscation = False, script_paths = List [],
              redirect_domain = None, html_content = [],
              error = Some (''Task was cancelled for '' @ host)\<rparr>, True)
          else if is_PlaywrightTimeoutError e then
            (\<lparr>domain = url', status_code = ''Timeout'', ip = resolved_ip,
              obfuscation = v_has_obfuscation s, script_paths = Str_of_list (v_js_filepaths s),
              redirect_domain = v_redirect_domain s, html_content = v_html_content s,
              error = Some ''Timeout occurred.''\<rparr>, True)
          else
            (\<lparr>domain = url', status_code = ''Failed'', ip = resolved_ip,
              obfuscation = v_has_obfuscation s, script_paths = Str_of_list (v_js_filepaths s),
              redirect_domain = v_redirect_domain s, html_content = v_html_content s,
              error = Some (str_exn e)\<rparr>, False))"

text \<open>
  \<open>scrape_website_async(url, max_wait_time, check_interval, no_change_limit,
  change_limit)\<close>: the dictionary returned or the exception that leaves the coroutine,
  and the calls made. \<open>max_wait_time\<close> and \<open>check_interval\<close> only bound waits of the
  outside world. \<open>proxy_manager.get_proxy()\<close> is taken to return a proxy.
\<close>

definition scrape_website_async ::
  "world \<Rightarrow> string \<Rightarrow> int \<Rightarrow> int \<Rightarrow> int \<Rightarrow> int \<Rightarrow> (exn + scrape_result) \<times> event list" where
  "scrape_website_async w url max_wait_time check_interval no_change_limit change_limit =
     (let url' = add_scheme url in
      case urlparse w url' of
        Inl e \<Rightarrow> (Inl e, [GetProxy])
      | Inr parsed \<Rightarrow>
          (case dns_resolve (resolve w) (netloc parsed) of
             Inl e \<Rightarrow> (Inl e, [GetProxy])
           | Inr resolved_ip \<Rightarrow>
               if resolved_ip = None \<or> resolved_ip = Some [] then
                 (Inr \<lparr>domain = netloc parsed, status_code = ''DNS Error'', ip = None,
                       obfuscation = False, script_paths = Str_of_list [],
                       redirect_domain = None, html_content = [],
                       error = Some (''DNS resolution failed for '' @ netloc parsed)\<rparr>,
                  [GetProxy])
               else
                 (case try_body w url' no_change_limit change_limit (init_locals [GetProxy]) of
                    (r, s) \<Rightarrow>
                      (case handlers url' (netloc parsed) resolved_ip r s of
                         (result, proxy_success) \<Rightarrow>
                           (case teardown w proxy_success s of
                              (Some e, tr) \<Rightarrow> (Inl e, tr)
                            | (None, tr) \<Rightarrow> (Inr result, tr))))))"

section \<open>The dispatcher\<close>

text \<open>
  \<open>process_scrape_task(domain)\<close>: the parsed record or \<open>None\<close>; a \<open>CancelledError\<close>
  passes the \<open>except Exception\<close> clause.
\<close>

definition process_scrape_task ::
  "world \<Rightarrow> string \<Rightarrow> (exn + (string \<times> string) list option) \<times> event list" where
  "process_scrape_task w domain_name =
     (case scrape_website_async w domain_name 12000 400 3 4 of
        (Inl e, tr) \<Rightarrow> (if is_Exception e then Inr None else Inl e, tr)
      | (Inr scraped_data, tr) \<Rightarrow>
          if html_content scraped_data = [] then (Inr None, tr)
          else
            (case from_scraper_to_parsed_data w scraped_data of
               Inl e \<Rightarrow> (if is_Exception e then Inr None else Inl e, tr)
             | Inr analyzed_data \<Rightarrow> (Inr analyzed_data, tr)))"

text \<open>
  \<open>process_domain(domain)\<close>, inside the semaphore: the messages handed to
  \<open>producer.send\<close>. An empty record is false in Python; both \<open>except\<close> clauses end the
  task without a message.
\<close>

definition process_domain :: "world \<Rightarrow> string \<Rightarrow> string \<Rightarrow> (string \<times> string) list list" where
  "process_domain w client_name domain_name =
     (case fst (process_scrape_task w domain_name) of
        Inl e \<Rightarrow> []
      | Inr None \<Rightarrow> []
      | Inr (Some result) \<Rightarrow>
          if result = [] then []
          else [AList.update ''processor'' client_name result])"

section \<open>Observations on a run\<close>

fun is_update :: "event \<Rightarrow> bool" where
  "is_update (UpdateLoadTime b) = True"
| "is_update _ = False"

text \<open>How often \<open>update_load_time\<close> was called.\<close>

definition update_calls :: "event list \<Rightarrow> nat" where
  "update_calls tr = length (filter is_update tr)"

text \<open>A request that the first two rules of the filter abort, whatever the set holds.\<close>

definition blocked :: "request \<Rightarrow> bool" where
  "blocked request =
     (req_resource_type request \<in> set blocked_resource_types
      \<or> list_ex (\<lambda>d. contains (req_url request) d) blocked_hosts)"

text \<open>
  The statements of the \<open>try\<close> body before the convergence loop, lines 147 to 191, as
  \<open>try_body\<close> lists them. A session reaches the content-polling phase when all of them
  return.
\<close>

definition steps_before_poll :: "world \<Rightarrow> string \<Rightarrow> step list" where
  "steps_before_poll w url' =
     [await (launch w) (\<lambda>s. s\<lparr>v_browser := True, v_trace := v_trace s @ [LaunchBrowser]\<rparr>),
      await (new_context w) (\<lambda>s. s\<lparr>v_context := True, v_trace := v_trace s @ [NewContext]\<rparr>),
      await (new_page w) (\<lambda>s. s\<lparr>v_page := True, v_trace := v_trace s @ [NewPage]\<rparr>),
      await (goto w) (\<lambda>s. s),
      first_content_step w,
      await (wait_for_selector w) (\<lambda>s. s),
      redirect_step w url']"

section \<open>Sample worlds\<close>

text \<open>
  A parser that is right on the URLs used below: \<open>https://\<close>, a host, and a path that
  starts at the first slash; a text without \<open>//\<close> is all path.
\<close>

definition simple_urlparse :: "string \<Rightarrow> exn + parsed_url" where
  "simple_urlparse u =
     (if startswith u ''https://''
      then Inr \<lparr>netloc = takeWhile (\<lambda>c. c \<noteq> CHR ''/'') (drop 8 u),
                path = dropWhile (\<lambda>c. c \<noteq> CHR ''/'') (drop 8 u)\<rparr>
      else Inr \<lparr>netloc = [], path = u\<rparr>)"

text \<open>
  \<open>example.com\<close> resolves, every other name does not exist; the page is stable at once
  and loads one script; every call succeeds.
\<close>

definition world_ok :: world where
  "world_ok =
     \<lparr>urlparse = simple_urlparse,
      resolve = (\<lambda>d. if d = ''example.com'' then Answer [''93.184.216.34''] else NXDOMAIN),
      playwright_start = None, launch = None, new_context = None, new_page = None,
      goto = None,
      content = (\<lambda>k. Inr ''<html><body>hello</body></html>''),
      wait_for_selector = None,
      page_url = ''https://example.com/'',
      sleep = (\<lambda>k. None),
      responses =
        [\<lparr>resp_url = ''https://example.com/app.js'',
          resp_content_type = Some ''application/javascript'',
          resp_status = 200, resp_text = Inr ''var a = 1;''\<rparr>],
      gather = None, playwright_stop = None,
      context_close = None, page_close = None, browser_close = None,
      from_scraper_to_parsed_data = (\<lambda>r. Inr (Some [(''domain'', domain r)]))\<rparr>"

text \<open>The same world, with the task cancelled while it waits for the body selector.\<close>

definition world_cancelled :: world where
  "world_cancelled = world_ok\<lparr>wait_for_selector := Some CancelledError\<rparr>"

text \<open>The same world, with a page whose \<open>close()\<close> raises.\<close>

definition world_page_close_fails :: world where
  "world_page_close_fails = world_ok\<lparr>page_close := Some (Exception ''Target closed'')\<rparr>"

text \<open>
  The same world, with the task cancelled after the polling phase, while it waits for
  the capture tasks (line 216).
\<close>

definition world_gather_cancelled :: world where
  "world_gather_cancelled = world_ok\<lparr>gather := Some CancelledError\<rparr>"

text \<open>The same world, with a script of two characters, on which the heuristic raises.\<close>

definition world_tiny_script :: world where
  "world_tiny_script =
     world_ok\<lparr>responses :=
        [\<lparr>resp_url = ''https://example.com/app.js'',
          resp_content_type = Some ''application/javascript'',
          resp_status = 200, resp_text = Inr ''a;''\<rparr>]\<rparr>"

text \<open>
  A script of 496 characters, \<open>0x1\<close> and a blank 124 times over: its first quarter
  holds 31 hexadecimal literals in 124 characters.
\<close>

definition dense_script :: string where
  "dense_script = concat (replicate 124 ''0x1 '')"

text \<open>The same picture requested twice, and the same script requested twice.\<close>

definition picture_twice :: "request list" where
  "picture_twice =
     [\<lparr>req_url = ''https://example.com/logo.png'', req_resource_type = ''image''\<rparr>,
      \<lparr>req_url = ''https://example.com/logo.png'', req_resource_type = ''image''\<rparr>]"

definition script_twice :: "request list" where
  "script_twice =
     [\<lparr>req_url = ''https://example.com/app.js'', req_resource_type = ''script''\<rparr>,
      \<lparr>req_url = ''https://example.com/app.js'', req_resource_type = ''script''\<rparr>]"

section \<open>The obfuscation heuristic: results\<close>

lemma py_int_quarter: "py_int (real n / 4) = int (n div 4)"
proof -
  have "\<lfloor>real n / real 4\<rfloor> = int (n div 4)"
    by (rule floor_divide_of_nat_eq)
  then show ?thesis
    unfolding py_int_def by simp
qed

lemma for_matches_count:
  "h \<le> th \<Longrightarrow> for_matches ms h th =
     (if h + int (length ms) > th then (th + 1, True) else (h + int (length ms), False))"
  by (induction ms arbitrary: h) auto

text \<open>
  With six literals or more in the first quarter the function returns at the sixth one,
  and the density it tests is six over the length of the quarter: the answer only
  depends on that length.
\<close>

lemma detect_obfuscation_early:
  assumes "6 \<le> length (finditer_hex (take (length js div 4) js))"
  shows "detect_obfuscation js = Inr (length js div 4 < 120)"
proof -
  from assms have ne: "js \<noteq> []"
    by auto
  from assms have nz: "length js div 4 \<noteq> 0"
    by (cases "length js div 4 = 0") auto
  show ?thesis
    using assms ne nz
    by (simp add: detect_obfuscation_def detect_obfuscation_with_def Let_def py_int_quarter
        slice_to_def py_div_def for_matches_count field_simps)
qed

lemma length_dense_script: "length dense_script = 496"
  unfolding dense_script_def by code_simp

lemma dense_script_prefix: "length (finditer_hex (take 124 dense_script)) = 31"
  unfolding dense_script_def by code_simp

lemma detect_small: "detect_obfuscation ''var a = 1;'' = Inr False"
  by code_simp

text \<open>
  Claim C8. \<open>detect_obfuscation\<close> is not total on non-empty scripts: for a script of one
  to three characters the length of the sampled prefix, \<open>int(length * 0.25)\<close>, is zero,
  and the division by it raises \<open>ZeroDivisionError\<close> instead of returning a boolean.
\<close>

theorem short_script_raises:
  "1 \<le> length js \<Longrightarrow> length js \<le> 3 \<Longrightarrow>
     py_int (real (length js) * 0.25) = 0 \<and> detect_obfuscation js = Inl ZeroDivisionError"
  by (auto simp: detect_obfuscation_def detect_obfuscation_with_def Let_def py_int_quarter
      slice_to_def py_div_def)

theorem short_script_raises_witness:
  "py_int (real (length ''a;'') * 0.25) = 0 \<and> detect_obfuscation ''a;'' = Inl ZeroDivisionError"
  using short_script_raises [of "''a;''"] by simp

text \<open>
  Claim C5 says that a script with at least six hexadecimal literals in its first
  quarter, at a density above 0.05 there, is flagged. The code does not do that: the
  sample script has 31 literals in the 124 characters of its first quarter, a density
  of 0.25, and \<open>detect_obfuscation\<close> answers \<open>False\<close>, since at the sixth literal it
  divides the running count 6, not the number of literals, by 124.
\<close>

theorem dense_script_not_flagged:
  "length dense_script = 496
   \<and> length (finditer_hex (slice_to dense_script (py_int (real (length dense_script) * 0.25)))) = 31
   \<and> (31 :: real) / 124 > 0.05
   \<and> detect_obfuscation dense_script = Inr False"
proof -
  have a: "py_int (real (length dense_script) * 0.25) = 124"
    using py_int_quarter [of 496] by (simp add: length_dense_script)
  have b: "detect_obfuscation dense_script = Inr False"
    using detect_obfuscation_early [of dense_script]
    by (simp add: length_dense_script dense_script_prefix)
  have c: "slice_to dense_script (py_int (real (length dense_script) * 0.25)) = take 124 dense_script"
    unfolding a by (simp add: slice_to_def)
  show ?thesis
    unfolding c using b length_dense_script dense_script_prefix by simp
qed

section \<open>The request filter: results\<close>

lemma handle_request_mono: "loaded \<subseteq> snd (handle_request r loaded)"
  by (auto simp: handle_request_def)

lemma handle_request_known:
  "req_url r \<in> loaded \<Longrightarrow> fst (handle_request r loaded) = Abort"
  by (simp add: handle_request_def)

lemma handle_request_new:
  "\<not> blocked r \<Longrightarrow> req_url r \<notin> loaded \<Longrightarrow>
     handle_request r loaded = (Continue, insert (req_url r) loaded)"
  by (simp add: handle_request_def blocked_def)

lemma handle_request_urls:
  "snd (handle_request r loaded) \<subseteq> insert (req_url r) loaded"
  by (auto simp: handle_request_def)

lemma handle_requests_fst:
  "fst (handle_requests (r # rs) loaded) =
     fst (handle_request r loaded) # fst (handle_requests rs (snd (handle_request r loaded)))"
  by (simp split: prod.splits)

lemma handle_requests_snd:
  "snd (handle_requests (r # rs) loaded) =
     snd (handle_requests rs (snd (handle_request r loaded)))"
  by (simp split: prod.splits)

lemma handle_requests_mono: "loaded \<subseteq> snd (handle_requests rs loaded)"
proof (induction rs arbitrary: loaded)
  case Nil
  show ?case by simp
next
  case (Cons r rs)
  have "loaded \<subseteq> snd (handle_request r loaded)"
    by (rule handle_request_mono)
  also have "\<dots> \<subseteq> snd (handle_requests rs (snd (handle_request r loaded)))"
    by (rule Cons.IH)
  finally show ?case
    by (simp only: handle_requests_snd)
qed

text \<open>Once a URL is in the set, every request for it is aborted.\<close>

lemma later_request_aborted:
  "u \<in> loaded \<Longrightarrow> j < length rs \<Longrightarrow> req_url (rs ! j) = u \<Longrightarrow>
     fst (handle_requests rs loaded) ! j = Abort"
proof (induction rs arbitrary: j loaded)
  case Nil
  then show ?case by simp
next
  case (Cons r rs)
  show ?case
  proof (cases j)
    case 0
    then show ?thesis
      using Cons.prems handle_request_known [of r loaded]
      by (simp only: handle_requests_fst) simp
  next
    case (Suc n)
    have "u \<in> snd (handle_request r loaded)"
      using handle_request_mono [of loaded r] Cons.prems(1) by auto
    then have "fst (handle_requests rs (snd (handle_request r loaded))) ! n = Abort"
      using Cons.IH [of "snd (handle_request r loaded)" n] Cons.prems Suc by simp
    then show ?thesis
      using Suc by (simp only: handle_requests_fst) simp
  qed
qed

text \<open>
  The heart of the deduplication: the first request for \<open>u\<close>, at position \<open>i\<close>, passes
  the first two rules; then it is continued, and a later request for \<open>u\<close> is aborted.
\<close>

lemma dedup_induct:
  assumes "i < j" "j < length rs"
    and "req_url (rs ! i) = u" "req_url (rs ! j) = u"
    and "\<forall>k<i. req_url (rs ! k) \<noteq> u"
    and "u \<notin> loaded" "\<not> blocked (rs ! i)"
  shows "fst (handle_requests rs loaded) ! i = Continue
         \<and> fst (handle_requests rs loaded) ! j = Abort
         \<and> u \<in> snd (handle_requests (take (Suc i) rs) loaded)"
  using assms
proof (induction rs arbitrary: i j loaded)
  case Nil
  then show ?case by simp
next
  case (Cons r rs)
  obtain j' where j: "j = Suc j'"
    using Cons.prems(1) by (cases j) auto
  show ?case
  proof (cases i)
    case 0
    then have r: "req_url r = u" "\<not> blocked r"
      using Cons.prems by auto
    then have h: "handle_request r loaded = (Continue, insert u loaded)"
      using handle_request_new [of r loaded] Cons.prems(6) by simp
    have ab: "fst (handle_requests rs (insert u loaded)) ! j' = Abort"
      using later_request_aborted [of u "insert u loaded" j' rs] Cons.prems(2,4) j by simp
    show ?thesis
      using 0 j h ab by (simp only: handle_requests_fst handle_requests_snd take_Suc_Cons) simp
  next
    case (Suc i')
    have ne: "req_url r \<noteq> u"
      using Cons.prems(5) Suc by auto
    have nl: "u \<notin> snd (handle_request r loaded)"
      using handle_request_urls [of r loaded] ne Cons.prems(6) by auto
    have "\<forall>k<i'. req_url (rs ! k) \<noteq> u"
      using Cons.prems(5) Suc by auto
    then have "fst (handle_requests rs (snd (handle_request r loaded))) ! i' = Continue
         \<and> fst (handle_requests rs (snd (handle_request r loaded))) ! j' = Abort
         \<and> u \<in> snd (handle_requests (take (Suc i') rs) (snd (handle_request r loaded)))"
      using Cons.IH [of i' j' "snd (handle_request r loaded)"] Cons.prems Suc j nl by auto
    then show ?thesis
      using Suc j by (simp only: handle_requests_fst handle_requests_snd take_Suc_Cons) simp
  qed
qed

text \<open>
  Claim C7 says that the first request for a URL that is requested twice or more is
  allowed and every later one aborted. The first request is not always allowed: a
  picture requested twice is aborted both times, by the rule on resource types, and
  its URL never reaches the set.
\<close>

theorem picture_twice_first_aborted:
  "req_url (picture_twice ! 0) = req_url (picture_twice ! 1)
   \<and> fst (handle_requests picture_twice {}) = [Abort, Abort]"
  by (simp add: picture_twice_def handle_request_def blocked_resource_types_def)

text \<open>
  Claim C7, amended. In a session, which starts with an empty set: when the first
  request for a URL passes the rules on resource types and on blocklisted hosts, it
  is continued, the URL is in the set from then on, and every later request for the
  same URL is aborted, whatever its resource type.
\<close>

theorem dedup_after_first_allowed:
  assumes "i < j" "j < length rs"
    and "req_url (rs ! i) = u" "req_url (rs ! j) = u"
    and "\<forall>k<i. req_url (rs ! k) \<noteq> u"
    and "\<not> blocked (rs ! i)"
  shows "fst (handle_requests rs {}) ! i = Continue
         \<and> u \<in> snd (handle_requests (take (Suc i) rs) {})
         \<and> fst (handle_requests rs {}) ! j = Abort"
  using dedup_induct [OF assms(1-5) _ assms(6), of "{}"] by simp

lemma script_not_blocked: "\<not> blocked (script_twice ! 0)"
  by (simp add: script_twice_def blocked_def blocked_resource_types_def blocked_hosts_def
      startswith_def)

theorem dedup_after_first_allowed_witness:
  "fst (handle_requests script_twice {}) ! 0 = Continue
   \<and> ''https://example.com/app.js'' \<in> snd (handle_requests (take (Suc 0) script_twice) {})
   \<and> fst (handle_requests script_twice {}) ! 1 = Abort"
proof -
  have a: "(0::nat) < 1" "1 < length script_twice"
    "req_url (script_twice ! 0) = ''https://example.com/app.js''"
    "req_url (script_twice ! 1) = ''https://example.com/app.js''"
    "\<forall>k<0::nat. req_url (script_twice ! k) \<noteq> ''https://example.com/app.js''"
    by (simp_all add: script_twice_def)
  show ?thesis
    using dedup_after_first_allowed [OF a script_not_blocked] by simp
qed

section \<open>The scrape session: results\<close>

lemmas step_defs = await_def first_content_step_def redirect_step_def gather_step_def
  js_filepaths_step_def obfuscation_step_def is_redirected_to_different_domain_def
  capture_scripts_async_def

text \<open>The loop guard is false at once: no iteration, no further snapshot.\<close>

lemma poll_loop_zero:
  "poll_loop w no_change_limit change_limit (0, 0, 0, None, h, st) = (None, (0, 0, 0, None, h, st))"
  by simp

lemma poll_step_zero:
  "poll_step w no_change_limit change_limit s = (None, s\<lparr>v_status_code := ''complete''\<rparr>)"
  by (simp add: poll_step_def)

lemmas run_defs = scrape_website_async_def add_scheme_def startswith_def dns_resolve_def
  try_body_def handlers_def teardown_def init_locals_def Let_def step_defs poll_step_zero

subsection \<open>Sample runs\<close>

lemma run_ok:
  "scrape_website_async world_ok ''example.com'' 12000 400 3 4 =
    (Inr \<lparr>domain = ''https://example.com'', status_code = ''complete'',
          ip = Some [''93.184.216.34''], obfuscation = False,
          script_paths = Str_of_list [''/app.js''], redirect_domain = None,
          html_content = ''<html><body>hello</body></html>'', error = None\<rparr>,
     [GetProxy, LaunchBrowser, NewContext, NewPage, UpdateLoadTime True,
      CloseContext, ClosePage, CloseBrowser])"
  by (simp add: run_defs world_ok_def simple_urlparse_def detect_small)

lemma run_dns_error:
  "scrape_website_async world_ok ''no-such-host.invalid'' 12000 400 3 4 =
    (Inr \<lparr>domain = ''no-such-host.invalid'', status_code = ''DNS Error'', ip = None,
          obfuscation = False, script_paths = Str_of_list [], redirect_domain = None,
          html_content = [],
          error = Some ''DNS resolution failed for no-such-host.invalid''\<rparr>,
     [GetProxy])"
  by (simp add: run_defs world_ok_def simple_urlparse_def)

lemma run_cancelled:
  "scrape_website_async world_cancelled ''example.com'' 12000 400 3 4 =
    (Inr \<lparr>domain = ''https://example.com'', status_code = ''Cancelled'', ip = None,
          obfuscation = False, script_paths = List [], redirect_domain = None,
          html_content = [], error = Some ''Task was cancelled for example.com''\<rparr>,
     [GetProxy, LaunchBrowser, NewContext, NewPage, UpdateLoadTime True,
      CloseContext, ClosePage, CloseBrowser])"
  by (simp add: run_defs world_ok_def world_cancelled_def simple_urlparse_def)

lemma run_page_close_fails:
  "scrape_website_async world_page_close_fails ''example.com'' 12000 400 3 4 =
    (Inl (Exception ''Target closed''),
     [GetProxy, LaunchBrowser, NewContext, NewPage, UpdateLoadTime True,
      CloseContext, ClosePage])"
  by (simp add: run_defs world_ok_def world_page_close_fails_def simple_urlparse_def detect_small)

subsection \<open>The shape of a run\<close>

lemma scrape_resolved:
  assumes "urlparse w (add_scheme url) = Inr p"
    and "dns_resolve (resolve w) (netloc p) = Inr (Some ips)" and "ips \<noteq> []"
  shows "scrape_website_async w url mwt ci ncl cl =
     (case try_body w (add_scheme url) ncl cl (init_locals [GetProxy]) of
        (r, s) \<Rightarrow>
          (case handlers (add_scheme url) (netloc p) (Some ips) r s of
             (result, proxy_success) \<Rightarrow>
               (case teardown w proxy_success s of
                  (Some e, tr) \<Rightarrow> (Inl e, tr)
                | (None, tr) \<Rightarrow> (Inr result, tr))))"
  using assms by (simp add: scrape_website_async_def Let_def)

lemma scrape_unresolved:
  assumes "urlparse w (add_scheme url) = Inr p"
    and "dns_resolve (resolve w) (netloc p) = Inr None
         \<or> dns_resolve (resolve w) (netloc p) = Inr (Some [])"
  shows "scrape_website_async w url mwt ci ncl cl =
     (Inr \<lparr>domain = netloc p, status_code = ''DNS Error'', ip = None,
           obfuscation = False, script_paths = Str_of_list [],
           redirect_domain = None, html_content = [],
           error = Some (''DNS resolution failed for '' @ netloc p)\<rparr>,
      [GetProxy])"
  using assms by (auto simp: scrape_website_async_def Let_def)

text \<open>A run that returns a dictionary took the DNS exit or went through the session.\<close>

lemma scrape_Inr_cases:
  assumes "scrape_website_async w url mwt ci ncl cl = (Inr res, tr)"
  obtains (dns) p where "urlparse w (add_scheme url) = Inr p"
      and "res = \<lparr>domain = netloc p, status_code = ''DNS Error'', ip = None,
           obfuscation = False, script_paths = Str_of_list [],
           redirect_domain = None, html_content = [],
           error = Some (''DNS resolution failed for '' @ netloc p)\<rparr>"
      and "tr = [GetProxy]"
  | (session) p ips r s where "urlparse w (add_scheme url) = Inr p"
      and "dns_resolve (resolve w) (netloc p) = Inr (Some ips)" and "ips \<noteq> []"
      and "try_body w (add_scheme url) ncl cl (init_locals [GetProxy]) = (r, s)"
      and "res = fst (handlers (add_scheme url) (netloc p) (Some ips) r s)"
proof (cases "urlparse w (add_scheme url)")
  case (Inl e)
  then show ?thesis
    using assms by (simp add: scrape_website_async_def Let_def)
next
  case (Inr p)
  show ?thesis
  proof (cases "dns_resolve (resolve w) (netloc p)")
    case (Inl e)
    then show ?thesis
      using assms Inr by (simp add: scrape_website_async_def Let_def)
  next
    case d: (Inr resolved_ip)
    show ?thesis
    proof (cases "resolved_ip = None \<or> resolved_ip = Some []")
      case True
      then have "dns_resolve (resolve w) (netloc p) = Inr None
         \<or> dns_resolve (resolve w) (netloc p) = Inr (Some [])"
        using d by auto
      from scrape_unresolved [OF Inr this] assms dns [OF Inr] show ?thesis
        by simp
    next
      case False
      then obtain ips where ips: "resolved_ip = Some ips" "ips \<noteq> []"
        by (cases resolved_ip) auto
      obtain r s where b: "try_body w (add_scheme url) ncl cl (init_locals [GetProxy]) = (r, s)"
        by (cases "try_body w (add_scheme url) ncl cl (init_locals [GetProxy])")
      have "res = fst (handlers (add_scheme url) (netloc p) (Some ips) r s)"
        using assms scrape_resolved [OF Inr d [unfolded ips(1)] ips(2), of mwt ci ncl cl] b
        by (auto split: prod.splits option.splits)
      with session [OF Inr d [unfolded ips(1)] ips(2) b] show ?thesis
        by simp
    qed
  qed
qed

subsection \<open>What the handlers return\<close>

lemma handlers_domain: "domain (fst (handlers u h i r s)) = u"
  by (simp add: handlers_def split: option.splits)

lemma handlers_status:
  "status_code (fst (handlers u h i r s)) =
     (case r of
        None \<Rightarrow> v_status_code s
      | Some e \<Rightarrow> if e = CancelledError then ''Cancelled''
                  else if is_PlaywrightTimeoutError e then ''Timeout'' else ''Failed'')"
  by (simp add: handlers_def split: option.splits)

lemma handlers_error:
  "error (fst (handlers u h i r s)) = None \<longleftrightarrow> r = None"
  by (simp add: handlers_def split: option.splits)

lemma handlers_html:
  "html_content (fst (handlers u h i r s)) =
     (if r = Some CancelledError then [] else v_html_content s)"
  by (simp add: handlers_def split: option.splits)

lemma handlers_cancelled:
  "handlers u h i (Some CancelledError) s =
     (\<lparr>domain = u, status_code = ''Cancelled'', ip = None,
       obfuscation = False, script_paths = List [],
       redirect_domain = None, html_content = [],
       error = Some (''Task was cancelled for '' @ h)\<rparr>, True)"
  by (simp add: handlers_def)

subsection \<open>What the body of the try does\<close>

lemma run_steps_keeps:
  "\<forall>f\<in>set fs. \<forall>x r' x'. f x = (r', x') \<longrightarrow> P x \<longrightarrow> P x' \<Longrightarrow>
     run_steps fs s = (r, s') \<Longrightarrow> P s \<Longrightarrow> P s'"
proof (induction fs arbitrary: s)
  case Nil
  then show ?case by simp
next
  case (Cons f fs)
  obtain r1 s1 where f: "f s = (r1, s1)"
    by (cases "f s")
  have p1: "P s1"
    using Cons.prems(1,3) f by auto
  show ?case
  proof (cases r1)
    case None
    then have "run_steps fs s1 = (r, s')"
      using Cons.prems(2) f by simp
    then show ?thesis
      using Cons.IH [of s1] Cons.prems(1) p1 by simp
  next
    case (Some e)
    then show ?thesis
      using Cons.prems(2) f p1 by simp
  qed
qed

lemma try_body_updates:
  assumes "try_body w u ncl cl s = (r, s')"
  shows "update_calls (v_trace s') = update_calls (v_trace s)"
proof (cases "playwright_start w")
  case (Some e)
  then show ?thesis
    using assms by (simp add: try_body_def)
next
  case None
  let ?fs = "[await (launch w) (\<lambda>s. s\<lparr>v_browser := True, v_trace := v_trace s @ [LaunchBrowser]\<rparr>),
              await (new_context w) (\<lambda>s. s\<lparr>v_context := True, v_trace := v_trace s @ [NewContext]\<rparr>),
              await (new_page w) (\<lambda>s. s\<lparr>v_page := True, v_trace := v_trace s @ [NewPage]\<rparr>),
              await (goto w) (\<lambda>s. s),
              first_content_step w,
              await (wait_for_selector w) (\<lambda>s. s),
              redirect_step w u,
              poll_step w ncl cl,
              gather_step w,
              js_filepaths_step w,
              obfuscation_step]"
  obtain r1 where rs: "run_steps ?fs s = (r1, s')"
    using assms None unfolding try_body_def
    by (cases "run_steps ?fs s") (auto split: option.splits)
  have keep: "\<forall>f\<in>set ?fs. \<forall>x r' x'. f x = (r', x') \<longrightarrow>
      update_calls (v_trace x) = update_calls (v_trace s) \<longrightarrow>
      update_calls (v_trace x') = update_calls (v_trace s)"
    by (auto simp: step_defs poll_step_zero update_calls_def Let_def
        split: option.splits sum.splits prod.splits bool.splits)
  show ?thesis
    using run_steps_keeps [OF keep rs] by simp
qed

lemma run_steps_Cons_None:
  "run_steps (f # fs) s = (None, s') \<Longrightarrow> \<exists>s1. f s = (None, s1) \<and> run_steps fs s1 = (None, s')"
  by (cases "f s") (auto split: option.splits)

lemma run_steps_append_None:
  "run_steps (fs @ gs) s = (None, s') \<Longrightarrow>
     \<exists>s1. run_steps fs s = (None, s1) \<and> run_steps gs s1 = (None, s')"
proof (induction fs arbitrary: s)
  case Nil
  then show ?case by simp
next
  case (Cons f fs)
  from run_steps_Cons_None [of f "fs @ gs" s s'] Cons.prems
  obtain s1 where f: "f s = (None, s1)" and r: "run_steps (fs @ gs) s1 = (None, s')"
    by auto
  from Cons.IH [OF r] obtain s2 where "run_steps fs s1 = (None, s2)" "run_steps gs s2 = (None, s')"
    by auto
  then show ?case
    using f by auto
qed

text \<open>
  A body that ends without an exception leaves the status \<open>complete\<close> and the first
  snapshot in \<open>html_content\<close>.
\<close>

lemma try_body_success:
  assumes "try_body w u ncl cl s = (None, s')"
  shows "v_status_code s' = ''complete'' \<and> content w 0 = Inr (v_html_content s')"
proof -
  let ?pre = "[await (launch w) (\<lambda>s. s\<lparr>v_browser := True, v_trace := v_trace s @ [LaunchBrowser]\<rparr>),
              await (new_context w) (\<lambda>s. s\<lparr>v_context := True, v_trace := v_trace s @ [NewContext]\<rparr>),
              await (new_page w) (\<lambda>s. s\<lparr>v_page := True, v_trace := v_trace s @ [NewPage]\<rparr>),
              await (goto w) (\<lambda>s. s)]"
  let ?mid = "[await (wait_for_selector w) (\<lambda>s. s), redirect_step w u]"
  let ?post = "[gather_step w, js_filepaths_step w, obfuscation_step]"
  have split: "?pre @ first_content_step w # (?mid @ poll_step w ncl cl # ?post) =
      [await (launch w) (\<lambda>s. s\<lparr>v_browser := True, v_trace := v_trace s @ [LaunchBrowser]\<rparr>),
       await (new_context w) (\<lambda>s. s\<lparr>v_context := True, v_trace := v_trace s @ [NewContext]\<rparr>),
       await (new_page w) (\<lambda>s. s\<lparr>v_page := True, v_trace := v_trace s @ [NewPage]\<rparr>),
       await (goto w) (\<lambda>s. s),
       first_content_step w,
       await (wait_for_selector w) (\<lambda>s. s),
       redirect_step w u,
       poll_step w ncl cl,
       gather_step w,
       js_filepaths_step w,
       obfuscation_step]"
    by simp
  have "playwright_start w = None"
    using assms by (cases "playwright_start w") (simp_all add: try_body_def)
  then have rs: "run_steps (?pre @ first_content_step w # (?mid @ poll_step w ncl cl # ?post)) s = (None, s')"
    using assms unfolding split try_body_def
    by (simp only: option.case split: prod.splits option.splits) simp
  from run_steps_append_None [OF rs] obtain s1 where
    r1: "run_steps (first_content_step w # (?mid @ poll_step w ncl cl # ?post)) s1 = (None, s')"
    by blast
  from run_steps_Cons_None [OF r1] obtain s2 where
    f: "first_content_step w s1 = (None, s2)"
    and r2: "run_steps (?mid @ poll_step w ncl cl # ?post) s2 = (None, s')"
    by blast
  have q2: "content w 0 = Inr (v_html_content s2)"
    using f by (auto simp: first_content_step_def split: sum.splits)
  have keep_html: "\<forall>f\<in>set (?mid @ poll_step w ncl cl # ?post). \<forall>x r' x'. f x = (r', x') \<longrightarrow>
      content w 0 = Inr (v_html_content x) \<longrightarrow> content w 0 = Inr (v_html_content x')"
    by (auto simp: step_defs poll_step_zero Let_def
        split: option.splits sum.splits prod.splits bool.splits)
  have html: "content w 0 = Inr (v_html_content s')"
    using run_steps_keeps [OF keep_html r2] q2 by simp
  from run_steps_append_None [OF r2] obtain s3 where
    r3: "run_steps (poll_step w ncl cl # ?post) s3 = (None, s')"
    by blast
  from run_steps_Cons_None [OF r3] obtain s4 where
    p: "poll_step w ncl cl s3 = (None, s4)" and r4: "run_steps ?post s4 = (None, s')"
    by blast
  have q4: "v_status_code s4 = ''complete''"
    using p by (auto simp: poll_step_zero)
  have keep_status: "\<forall>f\<in>set ?post. \<forall>x r' x'. f x = (r', x') \<longrightarrow>
      v_status_code x = ''complete'' \<longrightarrow> v_status_code x' = ''complete''"
    by (auto simp: step_defs Let_def
        split: option.splits sum.splits prod.splits bool.splits)
  have "v_status_code s' = ''complete''"
    using run_steps_keeps [OF keep_status r4] q4 by simp
  with html show ?thesis
    by simp
qed

lemma teardown_updates:
  "update_calls (snd (teardown w ok s)) = Suc (update_calls (v_trace s))"
  by (simp add: teardown_def update_calls_def Let_def split: option.splits)

lemma init_updates: "update_calls (v_trace (init_locals [GetProxy])) = 0"
  by (simp add: init_locals_def update_calls_def)

text \<open>
  Claim C1 says that \<open>update_load_time\<close> is called exactly once on every exit path, the
  DNS exit included. On the DNS exit it is not called: the \<open>return\<close> of line 131 comes
  before the \<open>try\<close> whose \<open>finally\<close> block makes the call.
\<close>

theorem dns_error_no_proxy_feedback:
  "fst (scrape_website_async world_ok ''no-such-host.invalid'' 12000 400 3 4) =
     Inr \<lparr>domain = ''no-such-host.invalid'', status_code = ''DNS Error'', ip = None,
          obfuscation = False, script_paths = Str_of_list [], redirect_domain = None,
          html_content = [],
          error = Some ''DNS resolution failed for no-such-host.invalid''\<rparr>
   \<and> update_calls (snd (scrape_website_async world_ok ''no-such-host.invalid'' 12000 400 3 4)) = 0"
  by (simp add: run_dns_error update_calls_def)

text \<open>
  Claim C1, amended. For every task whose DNS pre-check yields at least one address,
  \<open>update_load_time\<close> is called exactly once, whatever the outcome: a dictionary with
  status \<open>complete\<close>, \<open>Timeout\<close>, \<open>Cancelled\<close> or \<open>Failed\<close>, or an exception that
  leaves the \<open>finally\<close> block.
\<close>

theorem proxy_feedback_once:
  assumes "urlparse w (add_scheme url) = Inr p"
    and "dns_resolve (resolve w) (netloc p) = Inr (Some ips)" and "ips \<noteq> []"
  shows "update_calls (snd (scrape_website_async w url mwt ci ncl cl)) = 1"
proof -
  obtain r s where b: "try_body w (add_scheme url) ncl cl (init_locals [GetProxy]) = (r, s)"
    by (cases "try_body w (add_scheme url) ncl cl (init_locals [GetProxy])")
  obtain res ok where h: "handlers (add_scheme url) (netloc p) (Some ips) r s = (res, ok)"
    by (cases "handlers (add_scheme url) (netloc p) (Some ips) r s")
  have "snd (scrape_website_async w url mwt ci ncl cl) = snd (teardown w ok s)"
    using scrape_resolved [OF assms, of mwt ci ncl cl] b h
    by (simp split: prod.splits option.splits)
  then show ?thesis
    using teardown_updates [of w ok s] try_body_updates [OF b] init_updates by simp
qed

theorem proxy_feedback_once_witness:
  "update_calls (snd (scrape_website_async world_cancelled ''example.com'' 12000 400 3 4)) = 1"
proof -
  have a: "urlparse world_cancelled (add_scheme ''example.com'')
             = Inr \<lparr>netloc = ''example.com'', path = []\<rparr>"
    by (simp add: world_cancelled_def world_ok_def simple_urlparse_def add_scheme_def startswith_def)
  have b: "dns_resolve (resolve world_cancelled) (netloc \<lparr>netloc = ''example.com'', path = []\<rparr>)
             = Inr (Some [''93.184.216.34''])"
    by (simp add: world_cancelled_def world_ok_def dns_resolve_def)
  show ?thesis
    using proxy_feedback_once [OF a b] by simp
qed

lemma run_steps_append:
  "run_steps (fs @ gs) s =
     (case run_steps fs s of
        (None, s') \<Rightarrow> run_steps gs s'
      | (Some e, s') \<Rightarrow> (Some e, s'))"
proof (induction fs arbitrary: s)
  case Nil
  show ?case by simp
next
  case (Cons f fs)
  show ?case
  proof (cases "f s")
    case (Pair r s1)
    then show ?thesis
      using Cons.IH [of s1] by (cases r) simp_all
  qed
qed

lemma try_body_steps:
  "try_body w u ncl cl s =
     (case playwright_start w of
        Some e \<Rightarrow> (Some e, s)
      | None \<Rightarrow>
          (case run_steps (steps_before_poll w u @
                  [poll_step w ncl cl, gather_step w, js_filepaths_step w, obfuscation_step]) s of
             (r, s') \<Rightarrow>
               (case playwright_stop w of
                  Some e \<Rightarrow> (Some e, s')
                | None \<Rightarrow> (r, s'))))"
  by (simp only: try_body_def steps_before_poll_def append.simps)

text \<open>The first snapshot is what the statements before the loop leave in \<open>html_content\<close>.\<close>

lemma steps_before_poll_html:
  assumes "run_steps (steps_before_poll w u) s = (None, s7)"
  shows "content w 0 = Inr (v_html_content s7)"
proof -
  let ?pre = "[await (launch w) (\<lambda>s. s\<lparr>v_browser := True, v_trace := v_trace s @ [LaunchBrowser]\<rparr>),
              await (new_context w) (\<lambda>s. s\<lparr>v_context := True, v_trace := v_trace s @ [NewContext]\<rparr>),
              await (new_page w) (\<lambda>s. s\<lparr>v_page := True, v_trace := v_trace s @ [NewPage]\<rparr>),
              await (goto w) (\<lambda>s. s)]"
  let ?mid = "[await (wait_for_selector w) (\<lambda>s. s), redirect_step w u]"
  have "steps_before_poll w u = ?pre @ first_content_step w # ?mid"
    by (simp add: steps_before_poll_def)
  then have rs: "run_steps (?pre @ first_content_step w # ?mid) s = (None, s7)"
    using assms by simp
  from run_steps_append_None [OF rs] obtain s1 where
    r1: "run_steps (first_content_step w # ?mid) s1 = (None, s7)"
    by blast
  from run_steps_Cons_None [OF r1] obtain s2 where
    f: "first_content_step w s1 = (None, s2)" and r2: "run_steps ?mid s2 = (None, s7)"
    by blast
  have q2: "content w 0 = Inr (v_html_content s2)"
    using f by (auto simp: first_content_step_def split: sum.splits)
  have keep: "\<forall>f\<in>set ?mid. \<forall>x r' x'. f x = (r', x') \<longrightarrow>
      content w 0 = Inr (v_html_content x) \<longrightarrow> content w 0 = Inr (v_html_content x')"
    by (auto simp: await_def redirect_step_def split: option.splits sum.splits)
  show ?thesis
    using run_steps_keeps [OF keep r2] q2 by simp
qed

text \<open>
  Once the loop is reached, nothing changes \<open>html_content\<close> any more, however the
  body ends.
\<close>

lemma try_body_after_poll:
  assumes "playwright_start w = None"
    and "run_steps (steps_before_poll w u) s = (None, s7)"
    and "try_body w u ncl cl s = (r, s')"
  shows "v_html_content s' = v_html_content s7"
proof -
  let ?post = "[poll_step w ncl cl, gather_step w, js_filepaths_step w, obfuscation_step]"
  obtain r1 s1 where p: "run_steps ?post s7 = (r1, s1)"
    by (cases "run_steps ?post s7")
  have "run_steps (steps_before_poll w u @ ?post) s = (r1, s1)"
    using assms(2) p by (simp only: run_steps_append) simp
  then have s': "s' = s1"
    using assms(1,3) by (simp only: try_body_steps) (simp split: option.splits)
  have keep: "\<forall>f\<in>set ?post. \<forall>x r' x'. f x = (r', x') \<longrightarrow>
      v_html_content x = v_html_content s7 \<longrightarrow> v_html_content x' = v_html_content s7"
    by (auto simp: step_defs poll_step_zero Let_def
        split: option.splits sum.splits prod.splits bool.splits)
  show ?thesis
    using run_steps_keeps [OF keep p] s' by simp
qed

lemma handlers_status_cancelled:
  "v_status_code s = ''complete'' \<or> r \<noteq> None \<Longrightarrow>
     status_code (fst (handlers u h i r s)) = ''Cancelled'' \<longleftrightarrow> r = Some CancelledError"
  by (auto simp: handlers_status split: option.splits)

lemma detect_tiny: "detect_obfuscation ''a;'' = Inl ZeroDivisionError"
  by code_simp

lemma run_gather_cancelled:
  "scrape_website_async world_gather_cancelled ''example.com'' 12000 400 3 4 =
    (Inr \<lparr>domain = ''https://example.com'', status_code = ''Cancelled'', ip = None,
          obfuscation = False, script_paths = List [], redirect_domain = None,
          html_content = [], error = Some ''Task was cancelled for example.com''\<rparr>,
     [GetProxy, LaunchBrowser, NewContext, NewPage, UpdateLoadTime True,
      CloseContext, ClosePage, CloseBrowser])"
  by (simp add: run_defs world_ok_def world_gather_cancelled_def simple_urlparse_def)

lemma body_gather_cancelled:
  "try_body world_gather_cancelled ''https://example.com'' 3 4 (init_locals [GetProxy]) =
     (Some CancelledError,
      \<lparr>v_browser = True, v_context = True, v_page = True,
       v_html_content = ''<html><body>hello</body></html>'', v_status_code = ''complete'',
       v_redirect_domain = None, v_has_obfuscation = False, v_js_filepaths = [],
       v_script_urls = [''https://example.com/app.js''],
       v_script_contents = [''var a = 1;''],
       v_trace = [GetProxy, LaunchBrowser, NewContext, NewPage]\<rparr>)"
  by (simp add: try_body_def init_locals_def step_defs poll_step_zero Let_def
      world_gather_cancelled_def world_ok_def simple_urlparse_def startswith_def)

lemma run_tiny_script:
  "scrape_website_async world_tiny_script ''example.com'' 12000 400 3 4 =
    (Inr \<lparr>domain = ''https://example.com'', status_code = ''Failed'',
          ip = Some [''93.184.216.34''], obfuscation = False,
          script_paths = Str_of_list [''/app.js''], redirect_domain = None,
          html_content = ''<html><body>hello</body></html>'',
          error = Some ''division by zero''\<rparr>,
     [GetProxy, LaunchBrowser, NewContext, NewPage, UpdateLoadTime False,
      CloseContext, ClosePage, CloseBrowser])"
  by (simp add: run_defs world_ok_def world_tiny_script_def simple_urlparse_def detect_tiny)

lemma before_poll_tiny_script:
  "run_steps (steps_before_poll world_tiny_script ''https://example.com'') (init_locals [GetProxy]) =
     (None,
      \<lparr>v_browser = True, v_context = True, v_page = True,
       v_html_content = ''<html><body>hello</body></html>'', v_status_code = ''Failed'',
       v_redirect_domain = None, v_has_obfuscation = False, v_js_filepaths = [],
       v_script_urls = [], v_script_contents = [],
       v_trace = [GetProxy, LaunchBrowser, NewContext, NewPage]\<rparr>)"
  by (simp add: steps_before_poll_def init_locals_def step_defs
      world_tiny_script_def world_ok_def simple_urlparse_def startswith_def)

text \<open>
  Claim C2 says that in every session that reaches the content-polling phase the final
  \<open>html_content\<close> is the first snapshot. Not in every one: in the sample world the
  session takes the first snapshot, passes the loop and line 213 (the status is
  \<open>complete\<close> and \<open>html_content\<close> the snapshot when the body ends), and is cancelled
  while it waits for the capture tasks; the dictionary returned has an empty
  \<open>html_content\<close>.
\<close>

theorem gather_cancelled_drops_snapshot:
  "content world_gather_cancelled 0 = Inr ''<html><body>hello</body></html>''
   \<and> try_body world_gather_cancelled ''https://example.com'' 3 4 (init_locals [GetProxy]) =
     (Some CancelledError,
      \<lparr>v_browser = True, v_context = True, v_page = True,
       v_html_content = ''<html><body>hello</body></html>'', v_status_code = ''complete'',
       v_redirect_domain = None, v_has_obfuscation = False, v_js_filepaths = [],
       v_script_urls = [''https://example.com/app.js''],
       v_script_contents = [''var a = 1;''],
       v_trace = [GetProxy, LaunchBrowser, NewContext, NewPage]\<rparr>)
   \<and> fst (scrape_website_async world_gather_cancelled ''example.com'' 12000 400 3 4) =
       Inr \<lparr>domain = ''https://example.com'', status_code = ''Cancelled'', ip = None,
            obfuscation = False, script_paths = List [], redirect_domain = None,
            html_content = [], error = Some ''Task was cancelled for example.com''\<rparr>"
  by (simp add: run_gather_cancelled body_gather_cancelled)
    (simp add: world_gather_cancelled_def world_ok_def)

text \<open>
  Claim C2, amended. The guard of the convergence loop, \<open>total_iterations <
  unchanged_iterations + changed_iterations\<close> with the three counters at zero, is false
  at once: the body runs zero times, whatever the limits and the page, and the polling
  step only sets the status to \<open>complete\<close>. For every session that reaches the
  content-polling phase (the name resolves and every statement before the loop
  returns) and every dictionary it returns: \<open>html_content\<close> is the first snapshot
  taken after navigation, except in the dictionary of a session cancelled after the
  loop, where it is empty; the status is never \<open>loading\<close>; and the dictionary
  returned without an exception has the status \<open>complete\<close>.
\<close>

theorem poll_loop_never_runs:
  assumes "urlparse w (add_scheme url) = Inr p"
    and "dns_resolve (resolve w) (netloc p) = Inr (Some ips)" and "ips \<noteq> []"
    and "playwright_start w = None"
    and "run_steps (steps_before_poll w (add_scheme url)) (init_locals [GetProxy]) = (None, s7)"
    and "scrape_website_async w url mwt ci ncl cl = (Inr res, tr)"
  shows "poll_loop w ncl cl (0, 0, 0, None, h, st) = (None, (0, 0, 0, None, h, st))
   \<and> poll_step w ncl cl s = (None, s\<lparr>v_status_code := ''complete''\<rparr>)
   \<and> content w 0 = Inr (v_html_content s7)
   \<and> html_content res = (if status_code res = ''Cancelled'' then [] else v_html_content s7)
   \<and> status_code res \<noteq> ''loading''
   \<and> (error res = None \<longrightarrow> status_code res = ''complete'')"
proof -
  obtain r s' where b: "try_body w (add_scheme url) ncl cl (init_locals [GetProxy]) = (r, s')"
    by (cases "try_body w (add_scheme url) ncl cl (init_locals [GetProxy])")
  have res: "res = fst (handlers (add_scheme url) (netloc p) (Some ips) r s')"
    using assms(6) scrape_resolved [OF assms(1-3), of mwt ci ncl cl] b
    by (auto split: prod.splits option.splits)
  have html: "v_html_content s' = v_html_content s7"
    by (rule try_body_after_poll [OF assms(4,5) b])
  have ok: "r = None \<Longrightarrow> v_status_code s' = ''complete''"
    using try_body_success [of w "add_scheme url" ncl cl _ s'] b by simp
  have c: "status_code res = ''Cancelled'' \<longleftrightarrow> r = Some CancelledError"
    unfolding res using ok by (intro handlers_status_cancelled) auto
  have 1: "html_content res = (if status_code res = ''Cancelled'' then [] else v_html_content s7)"
    unfolding c unfolding res by (simp add: handlers_html html)
  have 2: "status_code res \<noteq> ''loading''"
    unfolding res using ok by (cases r) (simp_all add: handlers_status)
  have 3: "error res = None \<longrightarrow> status_code res = ''complete''"
    unfolding res using ok by (cases r) (simp_all add: handlers_status handlers_error)
  show ?thesis
    using 1 2 3 steps_before_poll_html [OF assms(5)] poll_loop_zero poll_step_zero by simp
qed

theorem poll_loop_never_runs_witness:
  "scrape_website_async world_tiny_script ''example.com'' 12000 400 3 4 =
    (Inr \<lparr>domain = ''https://example.com'', status_code = ''Failed'',
          ip = Some [''93.184.216.34''], obfuscation = False,
          script_paths = Str_of_list [''/app.js''], redirect_domain = None,
          html_content = ''<html><body>hello</body></html>'',
          error = Some ''division by zero''\<rparr>,
     [GetProxy, LaunchBrowser, NewContext, NewPage, UpdateLoadTime False,
      CloseContext, ClosePage, CloseBrowser])
   \<and> content world_tiny_script 0 = Inr ''<html><body>hello</body></html>''
   \<and> ''Failed'' \<noteq> ''Cancelled'' \<and> ''Failed'' \<noteq> ''loading''"
proof -
  have u: "add_scheme ''example.com'' = ''https://example.com''"
    by (simp add: add_scheme_def startswith_def)
  have a: "urlparse world_tiny_script (add_scheme ''example.com'')
             = Inr \<lparr>netloc = ''example.com'', path = []\<rparr>"
    by (simp add: u world_tiny_script_def world_ok_def simple_urlparse_def startswith_def)
  have b: "dns_resolve (resolve world_tiny_script) (netloc \<lparr>netloc = ''example.com'', path = []\<rparr>)
             = Inr (Some [''93.184.216.34''])"
    by (simp add: world_tiny_script_def world_ok_def dns_resolve_def)
  have c: "[''93.184.216.34''] \<noteq> []"
    by simp
  have d: "playwright_start world_tiny_script = None"
    by (simp add: world_tiny_script_def world_ok_def)
  have e: "run_steps (steps_before_poll world_tiny_script (add_scheme ''example.com''))
             (init_locals [GetProxy]) =
     (None,
      \<lparr>v_browser = True, v_context = True, v_page = True,
       v_html_content = ''<html><body>hello</body></html>'', v_status_code = ''Failed'',
       v_redirect_domain = None, v_has_obfuscation = False, v_js_filepaths = [],
       v_script_urls = [], v_script_contents = [],
       v_trace = [GetProxy, LaunchBrowser, NewContext, NewPage]\<rparr>)"
    unfolding u by (rule before_poll_tiny_script)
  show ?thesis
    using poll_loop_never_runs [OF a b c d e run_tiny_script] run_tiny_script
    by simp
qed

text \<open>
  Claim C3 says that no exception leaves a session, failures of the three closes of
  the teardown included. The code lets one out: in the sample world every step
  succeeds and \<open>page.close()\<close> raises; the \<open>finally\<close> block guards only
  \<open>context.close()\<close>, so the exception replaces the dictionary about to be returned,
  and \<open>browser.close()\<close> is never called.
\<close>

theorem page_close_failure_escapes:
  "scrape_website_async world_page_close_fails ''example.com'' 12000 400 3 4 =
    (Inl (Exception ''Target closed''),
     [GetProxy, LaunchBrowser, NewContext, NewPage, UpdateLoadTime True,
      CloseContext, ClosePage])"
  by (rule run_page_close_fails)

text \<open>
  Claim C4 says that a session cancelled after the DNS resolution and after a first
  snapshot keeps both in its result. The handler of \<open>CancelledError\<close> returns constants
  instead: in the sample world the name resolves, the first snapshot is taken, the
  cancellation strikes while the session waits for the body, and the result has no
  address and no content.
\<close>

theorem cancelled_drops_partial_data:
  "dns_resolve (resolve world_cancelled) ''example.com'' = Inr (Some [''93.184.216.34''])
   \<and> content world_cancelled 0 = Inr ''<html><body>hello</body></html>''
   \<and> wait_for_selector world_cancelled = Some CancelledError
   \<and> fst (scrape_website_async world_cancelled ''example.com'' 12000 400 3 4) =
       Inr \<lparr>domain = ''https://example.com'', status_code = ''Cancelled'', ip = None,
            obfuscation = False, script_paths = List [], redirect_domain = None,
            html_content = [], error = Some ''Task was cancelled for example.com''\<rparr>"
  by (simp add: run_cancelled) (simp add: world_cancelled_def world_ok_def dns_resolve_def)

text \<open>
  Claim C4, amended. For every session that is ended by a cancellation after the DNS
  resolution succeeded, and whose teardown raises nothing, the result is the fixed
  dictionary of the \<open>CancelledError\<close> handler: status \<open>Cancelled\<close>, \<open>ip\<close> null and
  \<open>html_content\<close> empty, whatever addresses were resolved and whatever content was
  captured.
\<close>

theorem cancelled_result_is_blank:
  assumes "urlparse w (add_scheme url) = Inr p"
    and "dns_resolve (resolve w) (netloc p) = Inr (Some ips)" and "ips \<noteq> []"
    and "try_body w (add_scheme url) ncl cl (init_locals [GetProxy]) = (Some CancelledError, s)"
    and "fst (teardown w True s) = None"
  shows "fst (scrape_website_async w url mwt ci ncl cl) =
     Inr \<lparr>domain = add_scheme url, status_code = ''Cancelled'', ip = None,
          obfuscation = False, script_paths = List [], redirect_domain = None,
          html_content = [], error = Some (''Task was cancelled for '' @ netloc p)\<rparr>"
  using scrape_resolved [OF assms(1-3), of mwt ci ncl cl] assms(4,5)
  by (simp add: handlers_cancelled split: prod.splits option.splits)

lemma world_cancelled_body:
  "try_body world_cancelled ''https://example.com'' 3 4 (init_locals [GetProxy]) =
     (Some CancelledError,
      \<lparr>v_browser = True, v_context = True, v_page = True,
       v_html_content = ''<html><body>hello</body></html>'', v_status_code = ''Failed'',
       v_redirect_domain = None, v_has_obfuscation = False, v_js_filepaths = [],
       v_script_urls = [], v_script_contents = [],
       v_trace = [GetProxy, LaunchBrowser, NewContext, NewPage]\<rparr>)"
  by (simp add: try_body_def init_locals_def step_defs world_cancelled_def world_ok_def)

theorem cancelled_result_is_blank_witness:
  "fst (scrape_website_async world_cancelled ''example.com'' 12000 400 3 4) =
     Inr \<lparr>domain = ''https://example.com'', status_code = ''Cancelled'', ip = None,
          obfuscation = False, script_paths = List [], redirect_domain = None,
          html_content = [], error = Some ''Task was cancelled for example.com''\<rparr>"
proof -
  have u: "add_scheme ''example.com'' = ''https://example.com''"
    by (simp add: add_scheme_def startswith_def)
  have a: "urlparse world_cancelled (add_scheme ''example.com'')
             = Inr \<lparr>netloc = ''example.com'', path = []\<rparr>"
    by (simp add: u world_cancelled_def world_ok_def simple_urlparse_def startswith_def)
  have b: "dns_resolve (resolve world_cancelled) (netloc \<lparr>netloc = ''example.com'', path = []\<rparr>)
             = Inr (Some [''93.184.216.34''])"
    by (simp add: world_cancelled_def world_ok_def dns_resolve_def)
  have c: "[''93.184.216.34''] \<noteq> []"
    by simp
  have d: "try_body world_cancelled (add_scheme ''example.com'') 3 4 (init_locals [GetProxy]) =
     (Some CancelledError,
      \<lparr>v_browser = True, v_context = True, v_page = True,
       v_html_content = ''<html><body>hello</body></html>'', v_status_code = ''Failed'',
       v_redirect_domain = None, v_has_obfuscation = False, v_js_filepaths = [],
       v_script_urls = [], v_script_contents = [],
       v_trace = [GetProxy, LaunchBrowser, NewContext, NewPage]\<rparr>)"
    unfolding u by (rule world_cancelled_body)
  show ?thesis
    using cancelled_result_is_blank [OF a b c d, of 12000 400]
    by (simp add: u teardown_def world_cancelled_def world_ok_def)
qed

text \<open>
  Claim C6. For every domain whose DNS pre-check yields no addresses (the resolver
  raises \<open>NXDOMAIN\<close>, \<open>NoAnswer\<close> or \<open>Timeout\<close>), the session returns the dictionary with
  status \<open>DNS Error\<close>, \<open>ip\<close> null and empty \<open>html_content\<close>, and the only call it has made
  is \<open>get_proxy\<close>: no browser is launched, no context and no page opened.
\<close>

theorem dns_failure_is_terminal:
  assumes "urlparse w (add_scheme url) = Inr p"
    and "resolve w (netloc p) = NXDOMAIN \<or> resolve w (netloc p) = NoAnswer
         \<or> resolve w (netloc p) = DnsTimeout"
  shows "dns_resolve (resolve w) (netloc p) = Inr None
    \<and> scrape_website_async w url mwt ci ncl cl =
       (Inr \<lparr>domain = netloc p, status_code = ''DNS Error'', ip = None,
             obfuscation = False, script_paths = Str_of_list [],
             redirect_domain = None, html_content = [],
             error = Some (''DNS resolution failed for '' @ netloc p)\<rparr>,
        [GetProxy])
    \<and> LaunchBrowser \<notin> set (snd (scrape_website_async w url mwt ci ncl cl))
    \<and> NewContext \<notin> set (snd (scrape_website_async w url mwt ci ncl cl))
    \<and> NewPage \<notin> set (snd (scrape_website_async w url mwt ci ncl cl))"
proof -
  have d: "dns_resolve (resolve w) (netloc p) = Inr None"
    using assms(2) by (auto simp: dns_resolve_def)
  then show ?thesis
    using scrape_unresolved [OF assms(1), of mwt ci ncl cl] by simp
qed

theorem dns_failure_is_terminal_witness:
  "scrape_website_async world_ok ''no-such-host.invalid'' 12000 400 3 4 =
    (Inr \<lparr>domain = ''no-such-host.invalid'', status_code = ''DNS Error'', ip = None,
          obfuscation = False, script_paths = Str_of_list [], redirect_domain = None,
          html_content = [],
          error = Some ''DNS resolution failed for no-such-host.invalid''\<rparr>,
     [GetProxy])"
proof -
  have a: "urlparse world_ok (add_scheme ''no-such-host.invalid'')
             = Inr \<lparr>netloc = ''no-such-host.invalid'', path = []\<rparr>"
    by (simp add: world_ok_def simple_urlparse_def add_scheme_def startswith_def)
  have b: "resolve world_ok (netloc \<lparr>netloc = ''no-such-host.invalid'', path = []\<rparr>) = NXDOMAIN
     \<or> resolve world_ok (netloc \<lparr>netloc = ''no-such-host.invalid'', path = []\<rparr>) = NoAnswer
     \<or> resolve world_ok (netloc \<lparr>netloc = ''no-such-host.invalid'', path = []\<rparr>) = DnsTimeout"
    by (simp add: world_ok_def)
  show ?thesis
    using dns_failure_is_terminal [OF a b, of 12000 400 3 4] by simp
qed

text \<open>
  Claim C9. For every session result whose \<open>html_content\<close> is the empty string,
  \<open>process_scrape_task\<close> returns \<open>None\<close> and \<open>process_domain\<close> hands no message to the
  producer; every result with status \<open>DNS Error\<close> or \<open>Cancelled\<close> is such a result.
\<close>

theorem empty_html_is_not_published:
  assumes "scrape_website_async w d 12000 400 3 4 = (Inr res, tr)"
  shows "(html_content res = [] \<longrightarrow>
            fst (process_scrape_task w d) = Inr None \<and> process_domain w client_name d = [])
         \<and> (status_code res = ''DNS Error'' \<or> status_code res = ''Cancelled'' \<longrightarrow>
              html_content res = [])"
proof (rule conjI; rule impI)
  assume "html_content res = []"
  then show "fst (process_scrape_task w d) = Inr None \<and> process_domain w client_name d = []"
    using assms by (simp add: process_scrape_task_def process_domain_def)
next
  assume st: "status_code res = ''DNS Error'' \<or> status_code res = ''Cancelled''"
  from assms show "html_content res = []"
  proof (cases rule: scrape_Inr_cases)
    case (dns p)
    then show ?thesis by simp
  next
    case (session p ips r s)
    show ?thesis
    proof (cases r)
      case None
      then have "status_code res = ''complete''"
        using session(5) try_body_success [of w "add_scheme d" 3 4 _ s] session(4)
        by (simp add: handlers_status)
      then show ?thesis
        using st by simp
    next
      case (Some e)
      then have "e = CancelledError"
        using st session(5) by (simp add: handlers_status split: if_splits)
      then show ?thesis
        using Some session(5) by (simp add: handlers_html)
    qed
  qed
qed

theorem empty_html_is_not_published_witness:
  "fst (process_scrape_task world_ok ''no-such-host.invalid'') = Inr None
   \<and> process_domain world_ok ''worker-1'' ''no-such-host.invalid'' = []"
  using empty_html_is_not_published [OF run_dns_error, of "''worker-1''"] by simp

text \<open>
  Claim C10. The \<open>domain\<close> field differs between the exits. On the DNS exit it is the
  host that \<open>urlparse\<close> finds in the URL; in every other dictionary (status \<open>complete\<close>,
  \<open>Timeout\<close>, \<open>Cancelled\<close> or \<open>Failed\<close>) it is the whole URL: the input with
  \<open>https://\<close> in front when the input does not start with \<open>http\<close>, which is the
  source's test for a missing scheme, and the input itself otherwise.
\<close>

theorem domain_field_by_exit:
  assumes "scrape_website_async w url mwt ci ncl cl = (Inr res, tr)"
  shows "(status_code res = ''DNS Error'' \<longrightarrow>
            (\<exists>p. urlparse w (add_scheme url) = Inr p \<and> domain res = netloc p))
       \<and> (status_code res \<noteq> ''DNS Error'' \<longrightarrow>
            status_code res \<in> {''complete'', ''Timeout'', ''Cancelled'', ''Failed''}
            \<and> domain res = add_scheme url)
       \<and> add_scheme url = (if startswith url ''http'' then url else ''https://'' @ url)"
  using assms
proof (cases rule: scrape_Inr_cases)
  case (dns p)
  then show ?thesis
    by (simp add: add_scheme_def)
next
  case (session p ips r s)
  have st: "status_code res \<in> {''complete'', ''Timeout'', ''Cancelled'', ''Failed''}"
  proof (cases r)
    case None
    then show ?thesis
      using session(5) try_body_success [of w "add_scheme url" ncl cl _ s] session(4)
      by (simp add: handlers_status)
  next
    case (Some e)
    then show ?thesis
      using session(5) by (simp add: handlers_status)
  qed
  then have "status_code res \<noteq> ''DNS Error''"
    by auto
  then show ?thesis
    using st session(5) by (simp add: handlers_domain add_scheme_def)
qed

theorem domain_field_by_exit_witness:
  "scrape_website_async world_ok ''example.com'' 12000 400 3 4 =
    (Inr \<lparr>domain = ''https://example.com'', status_code = ''complete'',
          ip = Some [''93.184.216.34''], obfuscation = False,
          script_paths = Str_of_list [''/app.js''], redirect_domain = None,
          html_content = ''<html><body>hello</body></html>'', error = None\<rparr>,
     [GetProxy, LaunchBrowser, NewContext, NewPage, UpdateLoadTime True,
      CloseContext, ClosePage, CloseBrowser])
   \<and> add_scheme ''example.com'' = ''https://example.com''
   \<and> scrape_website_async world_ok ''no-such-host.invalid'' 12000 400 3 4 =
    (Inr \<lparr>domain = ''no-such-host.invalid'', status_code = ''DNS Error'', ip = None,
          obfuscation = False, script_paths = Str_of_list [], redirect_domain = None,
          html_content = [],
          error = Some ''DNS resolution failed for no-such-host.invalid''\<rparr>,
     [GetProxy])
   \<and> urlparse world_ok (add_scheme ''no-such-host.invalid'') =
       Inr \<lparr>netloc = ''no-such-host.invalid'', path = []\<rparr>"
  using domain_field_by_exit [OF run_ok] domain_field_by_exit [OF run_dns_error]
    run_ok run_dns_error
  by (simp add: world_ok_def simple_urlparse_def add_scheme_def startswith_def)

end
